theory Spec2Isabelle
  imports Complex_Main
begin

section \<open>Numbers, arrays and exceptions\<close>

text \<open>
  The program computes with numpy arrays of IEEE floating-point numbers. The embedding
  takes the numbers as reals: rounding is not modelled, and the one place where the
  program produces a value that is no real number (a division by a zero field maximum,
  giving numpy's \<open>nan\<close>) is written out as \<open>None\<close> in \<open>rescale\<close> below.
  A 1-D array is a list; an exception raised by Python is the \<open>Inl\<close> of a sum.
\<close>

datatype exn = KeyError string | ValueError | External string

text \<open>\<open>np.radians\<close> and \<open>np.clip\<close> (\<open>minimum(maximum(x, lo), hi)\<close>).\<close>

definition radians :: "real \<Rightarrow> real" where
  "radians d = d * pi / 180"

definition clip :: "real \<Rightarrow> real \<Rightarrow> real \<Rightarrow> real" where
  "clip x lo hi = min (max x lo) hi"

text \<open>
  A soil parameter is a scalar or a 1-D array (docstring of \<open>compute_fos_vectorized\<close>).
  numpy broadcasts the operands of an elementwise operation to one length: scalars and
  arrays of length 1 stretch, all other arrays must agree, else it raises ValueError.
\<close>

datatype nd = Scalar real | Array "real list"

fun nd_get :: "nd \<Rightarrow> nat \<Rightarrow> real" where
  "nd_get (Scalar v) i = v"
| "nd_get (Array xs) i = (if length xs = 1 then xs ! 0 else xs ! i)"

fun array_lens :: "nd list \<Rightarrow> nat list" where
  "array_lens [] = []"
| "array_lens (Scalar v # ps) = array_lens ps"
| "array_lens (Array xs # ps) = length xs # array_lens ps"

definition broadcast_len :: "nd list \<Rightarrow> nat option" where
  "broadcast_len ps =
     (case filter (\<lambda>l. l \<noteq> 1) (array_lens ps) of
        [] \<Rightarrow> Some 1
      | l # ls \<Rightarrow> if list_all (\<lambda>k. k = l) ls then Some l else None)"

text \<open>\<open>np.max\<close> of a 1-D array: ValueError on a zero-size array.\<close>

definition np_max :: "real list \<Rightarrow> exn + real" where
  "np_max xs = (case xs of [] \<Rightarrow> Inl ValueError | x # rest \<Rightarrow> Inr (fold max rest x))"

section \<open>The stability model: \<open>compute_fos_vectorized\<close> (fos.py)\<close>

definition GAMMA_W :: real where
  "GAMMA_W = 9.81"

text \<open>
  Every statement of the function body is an elementwise array operation, so the array
  it returns holds, at each index, the value \<open>fos_cell\<close> computes from the operands at
  that index. The \<open>let\<close>s follow the source line by line. Line 61 takes \<open>np.minimum\<close>
  when \<open>ksat\<close> is an array and Python's \<open>min\<close> when it is a scalar; on numbers both
  are the minimum. \<open>tan\<close> is HOL's \<open>sin x / cos x\<close>, which is 0 where the cosine is 0;
  in floating point the tangent of a friction angle of 90 degrees is a large number.
\<close>

definition fos_cell ::
  "real \<Rightarrow> real \<Rightarrow> real \<Rightarrow> real \<Rightarrow> real \<Rightarrow> real \<Rightarrow> real \<Rightarrow> real \<Rightarrow> real \<Rightarrow> real" where
  "fos_cell slope_deg c phi_deg gamma z ksat current_saturation rainfall_intensity_mmph duration_hours =
     (let slope_rad = radians (clip slope_deg 0.1 89.9);
          sin_a = sin slope_rad;
          cos_a = cos slope_rad;
          tan_phi = tan (radians phi_deg);
          rain_rate_ms = rainfall_intensity_mmph * 0.0000002777;
          duration_s = duration_hours * 3600;
          ne = 0.3;
          inf_rate = min rain_rate_ms ksat;
          infiltration_depth_m = inf_rate * duration_s;
          h_w_rise = infiltration_depth_m / ne;
          h_w_initial = current_saturation * z;
          h_w = clip (h_w_initial + h_w_rise) 0 z;
          sigma_n = gamma * z * cos_a\<^sup>2;
          u = GAMMA_W * h_w * cos_a\<^sup>2;
          sigma_prime = max (sigma_n - u) 0;
          tau = gamma * z * sin_a * cos_a;
          resisting = c + sigma_prime * tan_phi;
          driving = max tau 0.00001;
          fos = resisting / driving
      in clip fos 0 10)"

text \<open>
  \<open>soil_params\<close> is a dict: a missing key raises KeyError at lines 45 to 49, before any
  array arithmetic. \<open>elevation\<close> is not used by the body.
\<close>

definition compute_fos_vectorized ::
  "real list \<Rightarrow> real list \<Rightarrow> (string \<rightharpoonup> nd) \<Rightarrow> real list \<Rightarrow> real \<Rightarrow> real \<Rightarrow> exn + real list" where
  "compute_fos_vectorized slope_deg elevation soil_params current_saturation
       rainfall_intensity_mmph duration_hours =
     (case soil_params ''c'' of None \<Rightarrow> Inl (KeyError ''c'') | Some c \<Rightarrow>
      case soil_params ''phi'' of None \<Rightarrow> Inl (KeyError ''phi'') | Some phi_deg \<Rightarrow>
      case soil_params ''gamma'' of None \<Rightarrow> Inl (KeyError ''gamma'') | Some gamma \<Rightarrow>
      case soil_params ''depth'' of None \<Rightarrow> Inl (KeyError ''depth'') | Some z \<Rightarrow>
      case soil_params ''ksat'' of None \<Rightarrow> Inl (KeyError ''ksat'') | Some ksat \<Rightarrow>
      case broadcast_len [Array slope_deg, c, phi_deg, gamma, z, ksat, Array current_saturation] of
        None \<Rightarrow> Inl ValueError
      | Some n \<Rightarrow>
          Inr (map (\<lambda>i. fos_cell (nd_get (Array slope_deg) i) (nd_get c i) (nd_get phi_deg i)
                          (nd_get gamma i) (nd_get z i) (nd_get ksat i)
                          (nd_get (Array current_saturation) i)
                          rainfall_intensity_mmph duration_hours) [0..<n]))"

section \<open>Risk transforms\<close>

text \<open>Line 136 of run_live_sim.py and line 101 of run_backtest.py, elementwise.\<close>

definition live_risk :: "real list \<Rightarrow> real list" where
  "live_risk fos = map (\<lambda>f. 1 / (1 + exp (10 * (f - 1)))) fos"

definition backtest_risk :: "real list \<Rightarrow> real list" where
  "backtest_risk fos_values = map (\<lambda>f. 1 / (1 + exp (5 * (f - 1.1)))) fos_values"

text \<open>The curve as the specification words it, with steepness \<open>k\<close>.\<close>

definition spec_logistic :: "real \<Rightarrow> real \<Rightarrow> real" where
  "spec_logistic k fos = 1 / (1 + exp (k * (fos - 1)))"

text \<open>The logistic curve with steepness \<open>k\<close> and midpoint \<open>f0\<close>.\<close>

definition logistic :: "real \<Rightarrow> real \<Rightarrow> real \<Rightarrow> real" where
  "logistic k f0 fos = 1 / (1 + exp (k * (fos - f0)))"

section \<open>The saturation tracker (run_live_sim.py, lines 115 to 117)\<close>

definition decay_rate :: real where
  "decay_rate = 0.985"

text \<open>
  \<open>saturation\<close> and \<open>rain_grid\<close> both have \<open>len(df)\<close> entries in the loop; the three
  statements are elementwise.
\<close>

definition update_saturation :: "real list \<Rightarrow> real list \<Rightarrow> real list" where
  "update_saturation saturation rain_grid =
     map (\<lambda>(s, r). let added_sat = (r / 100) * 0.08 in clip (s * decay_rate + added_sat) 0.05 1.0)
         (zip saturation rain_grid)"

section \<open>Station readings and the anomaly filter\<close>

text \<open>
  A station of \<open>stations_meta\<close> is a dict with the keys id, lat and lon; a reading is
  that dict extended by the key val (line 90: \<open>{**s, "val": max(val, 0.0)}\<close>).
\<close>

record station =
  st_id :: string
  st_lat :: real
  st_lon :: real

record reading = station +
  st_val :: real

definition stations_meta :: "station list" where
  "stations_meta =
     [\<lparr>st_id = ''S1'', st_lat = 31.10, st_lon = 77.10\<rparr>,
      \<lparr>st_id = ''S2'', st_lat = 31.20, st_lon = 77.20\<rparr>,
      \<lparr>st_id = ''S3'', st_lat = 31.05, st_lon = 77.15\<rparr>]"

text \<open>
  The stand-in class that run_live_sim.py defines when the import of
  \<open>sentinal.src.core.fusion\<close> fails (lines 16 and 17): it returns the readings as they are.
\<close>

definition filter_anomalies_fallback :: "reading list \<Rightarrow> reading list" where
  "filter_anomalies_fallback readings = readings"

text \<open>
  Modelled from the spec: the sanity bound \<open>CEILING\<close> of the anomaly filter, 200 mm/hr
  (section 4.1). The module \<open>sentinal/src/core/fusion.py\<close> that defines
  \<open>SensorFusionEngine.filter_anomalies\<close> is not among the sources.
\<close>

definition CEILING :: real where
  "CEILING = 200"

text \<open>
  Modelled from the spec: the deviation multiplier \<open>K\<close> of the anomaly filter, 4
  (section 4.1); its defining module is not among the sources.
\<close>

definition DEVIATION_K :: real where
  "DEVIATION_K = 4"

text \<open>
  Modelled from the spec: the median of the reading values (section 4.1), the middle
  value of the sorted list, or the mean of the two middle values for an even count;
  the median of a single element is that element. It is used on non-empty lists only.
\<close>

definition median :: "real list \<Rightarrow> real" where
  "median xs =
     (let s = sort xs; n = length s
      in if odd n then s ! (n div 2) else (s ! (n div 2 - 1) + s ! (n div 2)) / 2)"

text \<open>
  Modelled from the spec: \<open>SensorFusionEngine.filter_anomalies\<close> of
  \<open>sentinal/src/core/fusion.py\<close>, which is not among the sources (run_live_sim.py holds
  its caller and the stand-in above). Section 4.1: compute the median of the reading
  values and discard any reading whose value exceeds \<open>max(median * K, CEILING)\<close>, order
  preserved; no readings in, no readings out.
\<close>

definition filter_anomalies :: "reading list \<Rightarrow> reading list" where
  "filter_anomalies readings =
     (if readings = [] then []
      else let m = median (map st_val readings);
               bound = max (m * DEVIATION_K) CEILING
           in filter (\<lambda>r. \<not> st_val r > bound) readings)"

section \<open>The spatial interpolator (run_live_sim.py, lines 95 to 108)\<close>

text \<open>Lines 103 to 105 for one station: \<open>s["val"] / np.maximum(d2, 1e-6)\<close> per cell.\<close>

definition idw_term :: "real list \<Rightarrow> real list \<Rightarrow> reading \<Rightarrow> real list" where
  "idw_term lat lon s =
     map (\<lambda>(la, lo). let d2 = (la - st_lat s)\<^sup>2 + (lo - st_lon s)\<^sup>2;
                          d2 = max d2 0.000001
                      in st_val s / d2) (zip lat lon)"

text \<open>The loop of lines 101 to 105: \<open>rain_grid\<close> starts at zero and adds each station's term.\<close>

definition idw_accumulate :: "real list \<Rightarrow> real list \<Rightarrow> reading list \<Rightarrow> real list" where
  "idw_accumulate lat lon clean =
     fold (\<lambda>s rain_grid. map (\<lambda>(g, t). g + t) (zip rain_grid (idw_term lat lon s)))
          clean (replicate (length lat) 0)"

text \<open>Python's \<open>max\<close> over the values of a generator: ValueError when there is none.\<close>

definition py_max :: "real list \<Rightarrow> exn + real" where
  "py_max vs = (case vs of [] \<Rightarrow> Inl ValueError | v # rest \<Rightarrow> Inr (fold max rest v))"

text \<open>
  Lines 107 and 108: \<open>rain_grid /= np.max(rain_grid)\<close>, then \<open>rain_grid *= max(...)\<close>.
  numpy does not raise on a division by zero: it warns and stores \<open>nan\<close> for 0/0 (and an
  infinity for x/0), values that are no real numbers. The result is \<open>None\<close> then. The
  field maximum is an entry of the field, so with the non-negative station values of
  line 90 a zero maximum means that every cell is 0/0: \<open>None\<close> stands for the field
  whose every cell is \<open>nan\<close>.
\<close>

definition rescale :: "real \<Rightarrow> real \<Rightarrow> real list \<Rightarrow> real list option" where
  "rescale field_max max_val rain_grid =
     (if field_max = 0 then None
      else Some (map (\<lambda>x. x / field_max * max_val) rain_grid))"

definition spatial_rainfall_field ::
  "real list \<Rightarrow> real list \<Rightarrow> reading list \<Rightarrow> exn + real list option" where
  "spatial_rainfall_field lat lon clean =
     (if clean = [] then Inr (Some (replicate (length lat) 0))
      else let rain_grid = idw_accumulate lat lon clean
           in case np_max rain_grid of
                Inl e \<Rightarrow> Inl e
              | Inr field_max \<Rightarrow>
                  (case py_max (map st_val clean) of
                     Inl e \<Rightarrow> Inl e
                   | Inr max_val \<Rightarrow> Inr (rescale field_max max_val rain_grid)))"

section \<open>The data frame and the collaborators outside the sources\<close>

text \<open>
  The data frame that \<open>load_shimla_data\<close> and \<open>estimate_soil_parameters\<close> return: one row
  per cell with the nine columns the scripts read, the column names \<open>df.columns\<close>, and
  the data of the further numeric columns by name (the months of the backtest,
  \<open>R_30d\<close>). \<open>len(df)\<close> is the number of rows.
\<close>

record cell =
  col_lat :: real
  col_lon :: real
  col_elevation :: real
  col_slope :: real
  col_c :: real
  col_phi :: real
  col_gamma :: real
  col_depth :: real
  col_ksat :: real

record df =
  rows :: "cell list"
  columns :: "string list"
  extra :: "(string \<times> real list) list"

text \<open>The dict \<open>soil_params\<close> that all three scripts build from the columns.\<close>

definition soil_params_of :: "df \<Rightarrow> (string \<rightharpoonup> nd)" where
  "soil_params_of d =
     [''c'' \<mapsto> Array (map col_c (rows d)),
      ''phi'' \<mapsto> Array (map col_phi (rows d)),
      ''gamma'' \<mapsto> Array (map col_gamma (rows d)),
      ''depth'' \<mapsto> Array (map col_depth (rows d)),
      ''ksat'' \<mapsto> Array (map col_ksat (rows d))]"

text \<open>
  A printed line: literal text, a format with its text and numeric arguments (\<open>None\<close>
  for \<open>nan\<close>; the rendering of floats is not modelled), or a format with the exception
  it prints. The formats are written without the line breaks that start some of them,
  and the arrow of the sensor line is written \<open>->\<close>.
\<close>

datatype logline =
    Line string
  | Fmt string "string list" "real option list"
  | Exc string exn

text \<open>
  What the scripts take from outside the sources: the file system, the two loaders, the
  fusion engine, the random generator (one \<open>uniform(-5, 5)\<close> and one \<open>random()\<close> draw per
  cycle and station), the residual model, and the reporting tail of the quick demo
  (hotspot table, timing and the matplotlib heat map). A collaborator returns or raises;
  \<open>exn\<close> stands for the exceptions that derive from Python's \<open>Exception\<close>, the ones an
  \<open>except Exception\<close> clause catches.
\<close>

record env =
  path_exists :: "string \<Rightarrow> bool"
  script_dir_join :: "string \<Rightarrow> string"
  load_shimla_data :: "string \<Rightarrow> exn + df"
  estimate_soil_parameters :: "df \<Rightarrow> exn + df"
  fusion_filter :: "reading list \<Rightarrow> exn + reading list"
  uniform_draw :: "nat \<Rightarrow> nat \<Rightarrow> real"
  random_draw :: "nat \<Rightarrow> nat \<Rightarrow> real"
  predict_residual :: "df \<Rightarrow> exn + real list"
  render_report :: "df \<Rightarrow> real list \<Rightarrow> real list \<Rightarrow> bool \<Rightarrow> logline list \<times> (exn + string option)"

text \<open>
  The returned dict: status and logs, and the results of the backtest or the image of
  the demo where the script adds the key.
\<close>

datatype payload = Results "(string \<times> nat \<times> real) list" | Image "string option"

record response =
  status :: string
  logs :: "logline list"
  payload :: "payload option"

text \<open>\<open>not csv_path or not os.path.exists(csv_path)\<close>, for the default \<open>None\<close> too.\<close>

definition dataset_missing :: "env \<Rightarrow> string option \<Rightarrow> bool" where
  "dataset_missing E csv_path =
     (case csv_path of None \<Rightarrow> True | Some p \<Rightarrow> p = [] \<or> \<not> path_exists E p)"

text \<open>\<open>np.mean\<close>: \<open>nan\<close> (with a warning) on a zero-size array.\<close>

definition np_mean :: "real list \<Rightarrow> real option" where
  "np_mean xs = (if xs = [] then None else Some (sum_list xs / real (length xs)))"

section \<open>One cycle of the live simulation (run_live_sim.py, lines 77 to 142)\<close>

record cycle_out =
  out_rain_max :: real
  out_saturation :: "real list"
  out_fos :: "real list"
  out_risk :: "real list"
  out_unstable_frac :: "real option"

text \<open>
  Lines 110 to 137 on a rainfall field of numbers: the maximum that is printed and
  handed to the stability model, the saturation update, the factor of safety, the risk
  and the unstable fraction \<open>np.mean(fos < 1.0)\<close>.
\<close>

definition cycle_physics :: "df \<Rightarrow> real list \<Rightarrow> real list \<Rightarrow> exn + cycle_out" where
  "cycle_physics d saturation rain_grid =
     (case np_max rain_grid of
        Inl e \<Rightarrow> Inl e
      | Inr rain_max \<Rightarrow>
          (let saturation' = update_saturation saturation rain_grid
           in case compute_fos_vectorized (map col_slope (rows d)) (map col_elevation (rows d))
                     (soil_params_of d) saturation' rain_max 6 of
                Inl e \<Rightarrow> Inl e
              | Inr fos \<Rightarrow>
                  Inr \<lparr>out_rain_max = rain_max, out_saturation = saturation', out_fos = fos,
                       out_risk = live_risk fos,
                       out_unstable_frac = np_mean (map (\<lambda>f. if f < 1 then 1 else 0) fos)\<rparr>))"

text \<open>The lines that steps 2 to 5 print for a cycle with numbers.\<close>

definition cycle_lines :: "cycle_out \<Rightarrow> logline list" where
  "cycle_lines r =
     [Fmt ''  Max Rainfall: {:.1f} mm/hr'' [] [Some (out_rain_max r)],
      Fmt ''  Avg Saturation: {:.1f}%'' [] [map_option (\<lambda>m. m * 100) (np_mean (out_saturation r))],
      Fmt ''  Unstable Area: {:.2f}%'' [] [map_option (\<lambda>u. u * 100) (out_unstable_frac r)]]
     @ (case out_unstable_frac r of
          Some u \<Rightarrow> if u > 0.05 then [Line '' ALERT: Widespread slope instability detected''] else []
        | None \<Rightarrow> [])"

text \<open>
  The state the loop carries: the cycle counter, the saturation memory (\<open>None\<close> once
  every cell is \<open>nan\<close>) and the text printed so far.
\<close>

record sim_state =
  cycle :: nat
  saturation :: "real list option"
  printed :: "logline list"

text \<open>Lines 83 to 90: the synthetic readings of a cycle.\<close>

definition simulate_readings :: "env \<Rightarrow> nat \<Rightarrow> reading list" where
  "simulate_readings E cyc =
     (let base_rain = max 0 (25 + 25 * sin (real cyc * 0.4))
      in map (\<lambda>(k, s).
                let val = base_rain + uniform_draw E cyc k;
                    val = (if random_draw E cyc k < 0.1 then 9999 else val)
                in \<lparr>st_id = st_id s, st_lat = st_lat s, st_lon = st_lon s, st_val = max val 0\<rparr>)
             (zip [0..<length stations_meta] stations_meta))"

text \<open>
  The lines a cycle prints once the arrays hold \<open>nan\<close>: \<open>nan\<close> is printed for the
  averages, every comparison \<open>fos < 1.0\<close> is false, so the unstable fraction is 0 and no
  alert is printed. \<open>rain_max\<close> is the maximum of the rainfall field, \<open>None\<close> when the
  field itself is \<open>nan\<close>.
\<close>

definition nan_cycle_lines :: "real option \<Rightarrow> logline list" where
  "nan_cycle_lines rain_max =
     [Fmt ''  Max Rainfall: {:.1f} mm/hr'' [] [rain_max],
      Fmt ''  Avg Saturation: {:.1f}%'' [] [None],
      Fmt ''  Unstable Area: {:.2f}%'' [] [Some 0]]"

text \<open>
  The body of the \<open>while\<close> loop after the stop test: the lines it prints, and the
  exception it raises or the state for the next cycle.
\<close>

definition live_cycle :: "env \<Rightarrow> df \<Rightarrow> sim_state \<Rightarrow> logline list \<times> (exn + sim_state)" where
  "live_cycle E d st =
     (let cyc = cycle st + 1;
          l1 = [Fmt ''[CYCLE {}]'' [] [Some (real cyc)]];
          readings = simulate_readings E cyc
      in case fusion_filter E readings of
           Inl e \<Rightarrow> (l1, Inl e)
         | Inr clean \<Rightarrow>
             (let l2 = l1 @ [Fmt ''  Sensors: {} -> {} valid'' []
                               [Some (real (length readings)), Some (real (length clean))]]
              in case spatial_rainfall_field (map col_lat (rows d)) (map col_lon (rows d)) clean of
                   Inl e \<Rightarrow> (l2, Inl e)
                 | Inr None \<Rightarrow>
                     (l2 @ nan_cycle_lines None,
                      Inr \<lparr>cycle = cyc, saturation = None, printed = printed st\<rparr>)
                 | Inr (Some rain_grid) \<Rightarrow>
                     (case saturation st of
                        None \<Rightarrow>
                          (case np_max rain_grid of
                             Inl e \<Rightarrow> (l2, Inl e)
                           | Inr rain_max \<Rightarrow>
                               (l2 @ nan_cycle_lines (Some rain_max),
                                Inr \<lparr>cycle = cyc, saturation = None, printed = printed st\<rparr>))
                      | Some sat \<Rightarrow>
                          (case cycle_physics d sat rain_grid of
                             Inl e \<Rightarrow> (l2, Inl e)
                           | Inr r \<Rightarrow>
                               (l2 @ cycle_lines r,
                                Inr \<lparr>cycle = cyc, saturation = Some (out_saturation r),
                                     printed = printed st\<rparr>)))))"

section \<open>The loop and the entry point \<open>run_live_simulation\<close>\<close>

text \<open>Lines 73 to 75: \<open>max_cycles is not None and cycle >= max_cycles\<close>.\<close>

definition stop_now :: "int option \<Rightarrow> nat \<Rightarrow> bool" where
  "stop_now max_cycles cyc = (case max_cycles of None \<Rightarrow> False | Some m \<Rightarrow> m \<le> int cyc)"

text \<open>
  The \<open>while True\<close> loop. It ends at the stop test or at the first exception, with the
  text printed so far; with \<open>max_cycles = None\<close> and no exception it does not end, which
  is the value \<open>None\<close> here. The one-second sleep of the offline mode is not modelled.
\<close>

partial_function (option) live_loop ::
  "env \<Rightarrow> df \<Rightarrow> int option \<Rightarrow> sim_state \<Rightarrow> (logline list \<times> exn option) option" where
  "live_loop E d max_cycles st =
     (if stop_now max_cycles (cycle st)
      then Some (printed st @ [Fmt ''[STOP] Reached limit of {} cycles.'' []
                                 [map_option real_of_int max_cycles]], None)
      else case live_cycle E d st of
             (ls, Inl e) \<Rightarrow> Some (printed st @ ls, Some e)
           | (ls, Inr st') \<Rightarrow> live_loop E d max_cycles (st'\<lparr>printed := printed st @ ls\<rparr>))"

definition live_header :: "bool \<Rightarrow> logline list" where
  "live_header web_mode =
     [Line ''=== Sentinel-LEWS LIVE SIMULATION ==='',
      Line ''Mode: Rolling 6-Hour Forecast (10m x 10m)'',
      Line (if web_mode then ''Status: API DEMO RUN'' else ''Status: OFFLINE MODE (Edge Local)'')]"

text \<open>
  \<open>captured_output.getvalue()\<close>: \<open>print\<close> writes to \<open>captured_output\<close> only when
  \<open>web_mode\<close> has redirected \<open>sys.stdout\<close> to it.
\<close>

definition captured :: "bool \<Rightarrow> logline list \<Rightarrow> logline list" where
  "captured web_mode out = (if web_mode then out else [])"

text \<open>
  Lines 38 to 145, the part of the \<open>try\<close> block after the dataset test: the text printed
  and the exception that ended it, if one did.
\<close>

definition live_body ::
  "env \<Rightarrow> string \<Rightarrow> int option \<Rightarrow> logline list \<Rightarrow> (logline list \<times> exn option) option" where
  "live_body E p max_cycles out0 =
     (case load_shimla_data E p of
        Inl e \<Rightarrow> Some (out0, Some e)
      | Inr d0 \<Rightarrow>
          (case estimate_soil_parameters E d0 of
             Inl e \<Rightarrow> Some (out0, Some e)
           | Inr d \<Rightarrow>
               live_loop E d max_cycles
                 \<lparr>cycle = 0, saturation = Some (replicate (length (rows d)) 0.2), printed = out0\<rparr>))"

text \<open>
  The \<open>except Exception\<close> clause (lines 147 to 149) and the return after the \<open>try\<close>
  statement (lines 155 to 159). The result is what the caller gets: \<open>Inl\<close> an exception
  that leaves the function, \<open>Inr\<close> the returned dict or Python's \<open>None\<close>.
\<close>

definition live_finish :: "bool \<Rightarrow> logline list \<times> exn option \<Rightarrow> exn + response option" where
  "live_finish web_mode r =
     (case r of
        (out, Some e) \<Rightarrow>
          Inr (Some \<lparr>status = ''Error'',
                     logs = captured web_mode (out @ [Exc ''Error during simulation: {}'' e]),
                     payload = None\<rparr>)
      | (out, None) \<Rightarrow>
          Inr (if web_mode
               then Some \<lparr>status = ''Success'', logs = captured web_mode out, payload = None\<rparr>
               else None))"

definition live_missing :: "bool \<Rightarrow> exn + response option" where
  "live_missing web_mode =
     Inr (if web_mode
          then Some \<lparr>status = ''Error'',
                     logs = captured web_mode (live_header web_mode @ [Line ''Dataset missing.'']),
                     payload = None\<rparr>
          else None)"

definition run_live_simulation ::
  "env \<Rightarrow> string option \<Rightarrow> int option \<Rightarrow> bool \<Rightarrow> (exn + response option) option" where
  "run_live_simulation E csv_path max_cycles web_mode =
     (case csv_path of
        None \<Rightarrow> Some (live_missing web_mode)
      | Some p \<Rightarrow>
          if p = [] \<or> \<not> path_exists E p then Some (live_missing web_mode)
          else map_option (live_finish web_mode)
                 (live_body E p max_cycles (live_header web_mode)))"

section \<open>The entry point \<open>backtest_event\<close> (run_backtest.py)\<close>

definition candidates :: "string list" where
  "candidates = [''shimla_final_grid.csv'', ''../shimla_final_grid.csv'',
                 ''../../shimla_final_grid.csv'']"

text \<open>Lines 29 to 38: the first candidate found beside the script or under the working directory.\<close>

fun find_candidate :: "env \<Rightarrow> string list \<Rightarrow> string option" where
  "find_candidate E [] = None"
| "find_candidate E (p # ps) =
     (if path_exists E (script_dir_join E p) then Some (script_dir_join E p)
      else if path_exists E p then Some p
      else find_candidate E ps)"

text \<open>Lines 26 to 41: the path the backtest reads, \<open>None\<close> when no dataset is found.\<close>

definition resolve_dataset :: "env \<Rightarrow> string option \<Rightarrow> string option" where
  "resolve_dataset E csv_path =
     (if dataset_missing E csv_path then find_candidate E candidates else csv_path)"

text \<open>Python's \<open>sub in s\<close> on strings.\<close>

fun starts_with :: "string \<Rightarrow> string \<Rightarrow> bool" where
  "starts_with [] ys = True"
| "starts_with (x # xs) [] = False"
| "starts_with (x # xs) (y # ys) = (x = y \<and> starts_with xs ys)"

fun str_contains :: "string \<Rightarrow> string \<Rightarrow> bool" where
  "str_contains sub [] = (sub = [])"
| "str_contains sub (y # ys) = (starts_with sub (y # ys) \<or> str_contains sub ys)"

text \<open>
  Lines 68 to 110, the body of the loop over the months: the lines it prints, and the
  exception it raises or the entry it appends to \<open>results\<close>. The elapsed time that the
  last line prints is not modelled.
\<close>

definition backtest_month :: "df \<Rightarrow> string \<Rightarrow> logline list \<times> (exn + string \<times> nat \<times> real)" where
  "backtest_month d month =
     (let l1 = [Fmt ''Processing Historical Month: {}...'' [month] []]
      in case map_of (extra d) month of
           None \<Rightarrow> (l1, Inl (KeyError month))
         | Some monthly_rain \<Rightarrow>
             (let intensity_mmph = (if str_contains ''07-01'' month then 45 else 10);
                  saturation_proxy = (if str_contains ''07-01'' month then 0.8 else 0.4)
              in case compute_fos_vectorized (map col_slope (rows d)) (map col_elevation (rows d))
                        (soil_params_of d) (replicate (length (rows d)) saturation_proxy)
                        intensity_mmph 6 of
                   Inl e \<Rightarrow> (l1, Inl e)
                 | Inr fos_values \<Rightarrow>
                     (let risk = backtest_risk fos_values;
                          hotspots = length (filter (\<lambda>r. r > 0.8) risk)
                      in (l1 @ [Fmt ''  [Simulated] Intensity: {} mm/hr'' [] [Some intensity_mmph],
                                Fmt ''  [Result] Hotspots Detected: {}'' [] [Some (real hotspots)],
                                Line ''  [Perf] Time: {:.3f}s''],
                          Inr (month, hotspots, intensity_mmph)))))"

fun backtest_months ::
  "df \<Rightarrow> string list \<Rightarrow> logline list \<times> (exn + (string \<times> nat \<times> real) list)" where
  "backtest_months d [] = ([], Inr [])"
| "backtest_months d (month # rest) =
     (case backtest_month d month of
        (l, Inl e) \<Rightarrow> (l, Inl e)
      | (l, Inr r) \<Rightarrow>
          (case backtest_months d rest of
             (l', Inl e) \<Rightarrow> (l @ l', Inl e)
           | (l', Inr rs) \<Rightarrow> (l @ l', Inr (r # rs))))"

text \<open>Lines 112 to 121.\<close>

definition backtest_summary :: "(string \<times> nat \<times> real) list \<Rightarrow> logline list" where
  "backtest_summary results =
     [Line ''=== Backtest Summary ==='']
     @ (if results = [] then [Line ''No historical data to process.''] else [])
     @ map (\<lambda>(month, hotspots, intensity).
              Fmt ''{}: {} hotspots ({}) - {} mm/hr''
                  [month, if hotspots > 10 then ''ALERT TRIGGERED'' else ''No Alert'']
                  [Some (real hotspots), Some intensity]) results
     @ (if results \<noteq> [] then [Line ''Verification: July 2023 should have high alerts.''] else [])"

text \<open>Lines 44 to 121, the \<open>try\<close> block up to its \<open>return\<close>.\<close>

definition backtest_body ::
  "env \<Rightarrow> string \<Rightarrow> logline list \<times> (exn + (string \<times> nat \<times> real) list)" where
  "backtest_body E p =
     (case load_shimla_data E p of
        Inl e \<Rightarrow> ([], Inl e)
      | Inr d0 \<Rightarrow>
          (case estimate_soil_parameters E d0 of
             Inl e \<Rightarrow> ([], Inl e)
           | Inr d \<Rightarrow>
               (let months = [''2023-06-01'', ''2023-07-01''];
                    available_months = filter (\<lambda>m. m \<in> set (columns d)) months;
                    l0 = (if available_months = []
                          then [Line ''Historical rainfall columns (2023-06-01, 2023-07-01) not found.'',
                                Fmt ''Available columns: {}...'' (take 5 (columns d)) []]
                          else [])
                in case backtest_months d available_months of
                     (l, Inl e) \<Rightarrow> (l0 @ l, Inl e)
                   | (l, Inr results) \<Rightarrow> (l0 @ l @ backtest_summary results, Inr results))))"

definition backtest_header :: "logline list" where
  "backtest_header =
     [Line ''=== Sentinel-LEWS Historical Backtest ==='',
      Line ''Event: Himachal Floods / Landslides (July 2023)'',
      Line ''Goal: Verify detection > 4 hours before reported events.'']"

definition backtest_event :: "env \<Rightarrow> string option \<Rightarrow> exn + response" where
  "backtest_event E csv_path =
     (case resolve_dataset E csv_path of
        None \<Rightarrow>
          Inr \<lparr>status = ''Error'', logs = backtest_header @ [Line ''Dataset not found!''],
               payload = None\<rparr>
      | Some p \<Rightarrow>
          (case backtest_body E p of
             (l, Inl e) \<Rightarrow>
               Inr \<lparr>status = ''Error'', logs = backtest_header @ l @ [Exc ''Execution Error: {}'' e],
                    payload = None\<rparr>
           | (l, Inr results) \<Rightarrow>
               Inr \<lparr>status = ''Success'', logs = backtest_header @ l,
                    payload = Some (Results results)\<rparr>))"

section \<open>The entry point \<open>run_demo_event\<close> (run_quick_demo.py)\<close>

definition fos_to_risk :: "real list \<Rightarrow> real list" where
  "fos_to_risk fos = map (\<lambda>f. 1 / (1 + exp (10 * (f - 1)))) fos"

text \<open>\<open>Series.min\<close>, \<open>Series.max\<close>: \<open>nan\<close> on an empty column.\<close>

definition series_min :: "real list \<Rightarrow> real option" where
  "series_min xs = (case xs of [] \<Rightarrow> None | x # rest \<Rightarrow> Some (fold min rest x))"

definition series_max :: "real list \<Rightarrow> real option" where
  "series_max xs = (case xs of [] \<Rightarrow> None | x # rest \<Rightarrow> Some (fold max rest x))"

text \<open>Elementwise \<open>+\<close> of two arrays, with numpy's broadcasting.\<close>

definition np_add :: "real list \<Rightarrow> real list \<Rightarrow> exn + real list" where
  "np_add xs ys =
     (case broadcast_len [Array xs, Array ys] of
        None \<Rightarrow> Inl ValueError
      | Some n \<Rightarrow> Inr (map (\<lambda>i. nd_get (Array xs) i + nd_get (Array ys) i) [0..<n]))"

text \<open>Lines 75 to 77: the saturation the demo starts from.\<close>

definition initial_sat :: "df \<Rightarrow> exn + real list" where
  "initial_sat d =
     (if ''R_30d'' \<in> set (columns d)
      then (case map_of (extra d) ''R_30d'' of
              None \<Rightarrow> Inl (KeyError ''R_30d'')
            | Some r \<Rightarrow> Inr (map (\<lambda>x. clip (x / 500) 0 0.9) r))
      else Inr (replicate (length (rows d)) 0.5))"

text \<open>
  Lines 56 to 192, the \<open>try\<close> block after the dataset test: the lines printed, and the
  exception raised or the encoded heat map. The stability model runs the design storm
  of 50 mm/hr over 12 hours. Assigning \<open>df['fos']\<close> raises ValueError unless the array has
  \<open>len(df)\<close> entries. The assembly of the residual model's features is part of
  \<open>predict_residual\<close>; lines 108 to 192 are \<open>render_report\<close>.
\<close>

definition demo_body :: "env \<Rightarrow> string \<Rightarrow> bool \<Rightarrow> logline list \<times> (exn + string option)" where
  "demo_body E p web_mode =
     (case load_shimla_data E p of
        Inl e \<Rightarrow> ([], Inl e)
      | Inr d0 \<Rightarrow>
          (case estimate_soil_parameters E d0 of
             Inl e \<Rightarrow> ([], Inl e)
           | Inr d \<Rightarrow>
               (let slope = map col_slope (rows d);
                    elevation = map col_elevation (rows d);
                    l1 = [Line ''Data Stats:'',
                          Fmt ''  Slope: Min {:.1f}, Max {:.1f}, Mean {:.1f}'' []
                              [series_min slope, series_max slope, np_mean slope],
                          Fmt ''  Elev:  Min {:.1f}, Max {:.1f}'' []
                              [series_min elevation, series_max elevation]]
                in case initial_sat d of
                     Inl e \<Rightarrow> (l1, Inl e)
                   | Inr sat \<Rightarrow>
                       (case compute_fos_vectorized slope elevation (soil_params_of d) sat 50 12 of
                          Inl e \<Rightarrow> (l1, Inl e)
                        | Inr fos_values \<Rightarrow>
                            (case predict_residual E d of
                               Inl e \<Rightarrow> (l1, Inl e)
                             | Inr residual \<Rightarrow>
                                 (case np_add fos_values residual of
                                    Inl e \<Rightarrow> (l1, Inl e)
                                  | Inr fos_final \<Rightarrow>
                                      (let risk_probs = fos_to_risk fos_final
                                       in if length fos_final \<noteq> length (rows d)
                                          then (l1, Inl ValueError)
                                          else (case render_report E d fos_final risk_probs web_mode of
                                                  (l2, r) \<Rightarrow> (l1 @ l2, r)))))))))"

definition demo_header :: "logline list" where
  "demo_header = [Line ''=== Sentinel-LEWS Edge Pipeline ==='']"

definition demo_missing :: "string option \<Rightarrow> bool \<Rightarrow> exn + response option" where
  "demo_missing csv_path web_mode =
     Inr (if web_mode
          then Some \<lparr>status = ''Error'',
                     logs = captured web_mode
                              (demo_header @ [Fmt ''Error: Dataset not found at {}''
                                                [case csv_path of None \<Rightarrow> ''None'' | Some p \<Rightarrow> p] []]),
                     payload = None\<rparr>
          else None)"

definition run_demo_event :: "env \<Rightarrow> string option \<Rightarrow> bool \<Rightarrow> exn + response option" where
  "run_demo_event E csv_path web_mode =
     (case csv_path of
        None \<Rightarrow> demo_missing csv_path web_mode
      | Some p \<Rightarrow>
          if p = [] \<or> \<not> path_exists E p then demo_missing csv_path web_mode
          else (case demo_body E p web_mode of
                  (l, Inl e) \<Rightarrow>
                    Inr (Some \<lparr>status = ''Error'',
                               logs = captured web_mode (demo_header @ l @ [Exc ''Execution Error: {}'' e]),
                               payload = None\<rparr>)
                | (l, Inr heatmap_base64) \<Rightarrow>
                    Inr (if web_mode
                         then Some \<lparr>status = ''Success'', logs = captured web_mode (demo_header @ l),
                                    payload = Some (Image heatmap_base64)\<rparr>
                         else None)))"

section \<open>Concrete inputs\<close>

text \<open>A one-cell grid and small environments, used to run the definitions.\<close>

definition cell0 :: cell where
  "cell0 = \<lparr>col_lat = 31.10, col_lon = 77.10, col_elevation = 1500, col_slope = 45,
            col_c = 30, col_phi = 30, col_gamma = 20, col_depth = 1, col_ksat = 0.000001\<rparr>"

definition cell1 :: cell where
  "cell1 = \<lparr>col_lat = 31.20, col_lon = 77.20, col_elevation = 1600, col_slope = 30,
            col_c = 10, col_phi = 45, col_gamma = 18, col_depth = 2, col_ksat = 0.000001\<rparr>"

definition df3 :: df where
  "df3 = \<lparr>rows = [cell0, cell1, cell0],
          columns = [''lat'', ''lon'', ''elevation'', ''slope''], extra = []\<rparr>"

definition df0 :: df where
  "df0 = \<lparr>rows = [cell0], columns = [''lat'', ''lon'', ''elevation'', ''slope''], extra = []\<rparr>"

definition reading_at :: "nat \<Rightarrow> real \<Rightarrow> reading" where
  "reading_at k v =
     (let s = stations_meta ! k
      in \<lparr>st_id = st_id s, st_lat = st_lat s, st_lon = st_lon s, st_val = v\<rparr>)"

definition probe :: "string \<Rightarrow> real \<Rightarrow> reading" where
  "probe name v = \<lparr>st_id = name, st_lat = 31.10, st_lon = 77.10, st_val = v\<rparr>"

definition one_cell_soil :: "real \<Rightarrow> real \<Rightarrow> real \<Rightarrow> real \<Rightarrow> real \<Rightarrow> (string \<rightharpoonup> nd)" where
  "one_cell_soil c ph g z k =
     [''c'' \<mapsto> Array [c], ''phi'' \<mapsto> Array [ph], ''gamma'' \<mapsto> Array [g],
      ''depth'' \<mapsto> Array [z], ''ksat'' \<mapsto> Array [k]]"

definition env_no_files :: env where
  "env_no_files =
     \<lparr>path_exists = (\<lambda>p. False), script_dir_join = (\<lambda>p. ''/app/'' @ p),
      load_shimla_data = (\<lambda>p. Inl (External ''no such file'')),
      estimate_soil_parameters = (\<lambda>d. Inr d),
      fusion_filter = (\<lambda>rs. Inr rs),
      uniform_draw = (\<lambda>c k. 0), random_draw = (\<lambda>c k. 1),
      predict_residual = (\<lambda>d. Inr (replicate (length (rows d)) 0)),
      render_report = (\<lambda>d f r w. ([], Inr None))\<rparr>"

definition env_bad_csv :: env where
  "env_bad_csv = env_no_files\<lparr>path_exists := (\<lambda>p. True)\<rparr>"

definition env_ok :: env where
  "env_ok = env_bad_csv\<lparr>load_shimla_data := (\<lambda>p. Inr df0)\<rparr>"

section \<open>Basic facts\<close>

lemma clip_range: "lo \<le> hi \<Longrightarrow> lo \<le> clip x lo hi \<and> clip x lo hi \<le> hi"
  by (auto simp: clip_def)



lemma fos_cell_range:
  "0 \<le> fos_cell sl c ph g z k s r d \<and> fos_cell sl c ph g z k s r d \<le> 10"
  unfolding fos_cell_def Let_def by (rule clip_range) simp

lemma logistic_range: "0 \<le> 1 / (1 + exp (x::real)) \<and> 1 / (1 + exp x) \<le> 1"
proof -
  have "0 < exp x" by simp
  then show ?thesis by (simp add: add_pos_pos)
qed

lemma compute_fos_vectorized_nth:
  assumes "compute_fos_vectorized sl el sp sat r d = Inr fos"
  shows "\<exists>c ph g z k. sp ''c'' = Some c \<and> sp ''phi'' = Some ph \<and> sp ''gamma'' = Some g
           \<and> sp ''depth'' = Some z \<and> sp ''ksat'' = Some k
           \<and> broadcast_len [Array sl, c, ph, g, z, k, Array sat] = Some (length fos)
           \<and> (\<forall>i < length fos. fos ! i =
                 fos_cell (nd_get (Array sl) i) (nd_get c i) (nd_get ph i) (nd_get g i)
                          (nd_get z i) (nd_get k i) (nd_get (Array sat) i) r d)"
  using assms
  by (auto simp: compute_fos_vectorized_def split: option.splits)








lemma compute_one_cell:
  "compute_fos_vectorized [sl] [el] (one_cell_soil c ph g z k) [s] r d
     = Inr [fos_cell sl c ph g z k s r d]"
  by (simp add: compute_fos_vectorized_def one_cell_soil_def broadcast_len_def)







lemma fold_max_lower: "x \<le> fold max xs (x::real)"
proof (induction xs arbitrary: x)
  case Nil
  show ?case by simp
next
  case (Cons a xs)
  have "x \<le> max a x" by simp
  also have "\<dots> \<le> fold max xs (max a x)" by (rule Cons.IH)
  finally show ?case by simp
qed

lemma fold_max_upper: "y \<in> set xs \<Longrightarrow> y \<le> fold max xs (x::real)"
proof (induction xs arbitrary: x)
  case Nil
  then show ?case by simp
next
  case (Cons a xs)
  show ?case
  proof (cases "y = a")
    case True
    have "a \<le> max a x" by simp
    also have "\<dots> \<le> fold max xs (max a x)" by (rule fold_max_lower)
    finally show ?thesis using True by simp
  next
    case False
    with Cons.prems have "y \<in> set xs" by simp
    then have "y \<le> fold max xs (max a x)" by (rule Cons.IH)
    then show ?thesis by simp
  qed
qed

lemma fold_max_in: "fold max xs (x::real) \<in> insert x (set xs)"
proof (induction xs arbitrary: x)
  case Nil
  show ?case by simp
next
  case (Cons a xs)
  have e: "fold max (a # xs) x = fold max xs (max a x)" by simp
  show ?case
  proof (cases "a \<le> x")
    case True
    then have "max a x = x" by simp
    with e have "fold max (a # xs) x = fold max xs x" by simp
    with Cons.IH [of x] show ?thesis by auto
  next
    case False
    then have "max a x = a" by simp
    with e have "fold max (a # xs) x = fold max xs a" by simp
    with Cons.IH [of a] show ?thesis by auto
  qed
qed

lemma np_max_char:
  assumes "np_max xs = Inr m"
  shows "m \<in> set xs \<and> (\<forall>x \<in> set xs. x \<le> m)"
proof (cases xs)
  case Nil
  with assms show ?thesis by (simp add: np_max_def)
next
  case (Cons a rest)
  with assms have m: "m = fold max rest a" by (simp add: np_max_def)
  have "m \<in> set xs" unfolding m Cons using fold_max_in [of rest a] by simp
  moreover have "\<forall>x \<in> set xs. x \<le> m"
    unfolding m Cons using fold_max_lower [of a rest] fold_max_upper [of _ rest a] by auto
  ultimately show ?thesis by simp
qed

lemma np_max_nonempty: "xs \<noteq> [] \<Longrightarrow> \<exists>m. np_max xs = Inr m"
  by (cases xs) (simp_all add: np_max_def)

lemma funpow_max_zero: "(max (0::real) ^^ k) 0 = 0"
  by (induction k) simp_all

lemma idw_term_length: "length (idw_term lat lon s) = min (length lat) (length lon)"
  by (simp add: idw_term_def)

lemma idw_term_nth:
  assumes "i < length lat" and "length lon = length lat"
  shows "idw_term lat lon s ! i
           = st_val s / max ((lat ! i - st_lat s)\<^sup>2 + (lon ! i - st_lon s)\<^sup>2) 0.000001"
  using assms by (simp add: idw_term_def Let_def)

lemma add_zero_grid:
  assumes "length lon = length lat" and "st_val s = 0"
  shows "map (\<lambda>(g, t). g + t) (zip (replicate (length lat) 0) (idw_term lat lon s))
           = replicate (length lat) 0"
proof (rule nth_equalityI)
  show "length (map (\<lambda>(g, t). g + t) (zip (replicate (length lat) 0) (idw_term lat lon s)))
          = length (replicate (length lat) (0::real))"
    using assms(1) by (simp add: idw_term_length)
next
  fix i
  assume "i < length (map (\<lambda>(g, t). g + t) (zip (replicate (length lat) 0) (idw_term lat lon s)))"
  then have i: "i < length lat" using assms(1) by (simp add: idw_term_length)
  then show "map (\<lambda>(g, t). g + t) (zip (replicate (length lat) 0) (idw_term lat lon s)) ! i
               = replicate (length lat) 0 ! i"
    using assms by (simp add: idw_term_length idw_term_nth)
qed

lemma idw_accumulate_zero:
  assumes "length lon = length lat" and "\<forall>s \<in> set clean. st_val s = 0"
  shows "idw_accumulate lat lon clean = replicate (length lat) 0"
  using assms(2) unfolding idw_accumulate_def
  by (induction clean) (simp_all add: add_zero_grid [OF assms(1)])

lemma idw_accumulate_single:
  assumes "length lon = length lat"
  shows "idw_accumulate lat lon [s] = idw_term lat lon s"
proof (rule nth_equalityI)
  show "length (idw_accumulate lat lon [s]) = length (idw_term lat lon s)"
    using assms by (simp add: idw_accumulate_def idw_term_length)
next
  fix i
  assume "i < length (idw_accumulate lat lon [s])"
  then have "i < length lat" using assms by (simp add: idw_accumulate_def idw_term_length)
  then show "idw_accumulate lat lon [s] ! i = idw_term lat lon s ! i"
    using assms by (simp add: idw_accumulate_def idw_term_length)
qed

lemma zero_field_undefined:
  assumes "clean \<noteq> []" and "\<forall>s \<in> set clean. st_val s = 0"
      and "lat \<noteq> []" and "length lon = length lat"
  shows "np_max (idw_accumulate lat lon clean) = Inr 0
       \<and> spatial_rainfall_field lat lon clean = Inr None"
proof -
  from assms(3) obtain k where k: "length lat = Suc k" by (cases lat) auto
  have acc: "idw_accumulate lat lon clean = replicate (length lat) 0"
    using assms(4) assms(2) by (rule idw_accumulate_zero)
  have mx: "np_max (idw_accumulate lat lon clean) = Inr 0"
    unfolding acc k by (simp add: np_max_def funpow_max_zero)
  from assms(1) obtain v where pm: "py_max (map st_val clean) = Inr v"
    by (cases clean) (auto simp: py_max_def)
  have "spatial_rainfall_field lat lon clean = Inr None"
    using assms(1) mx pm by (simp add: spatial_rainfall_field_def Let_def rescale_def)
  with mx show ?thesis by simp
qed

lemma single_station_peak:
  assumes j: "j < length lat" and len: "length lon = length lat"
      and at: "lat ! j = st_lat s" "lon ! j = st_lon s" and pos: "0 < st_val s"
  shows "\<exists>field. spatial_rainfall_field lat lon [s] = Inr (Some field)
           \<and> length field = length lat \<and> field ! j = st_val s
           \<and> (\<forall>x \<in> set field. x \<le> st_val s)"
proof -
  define V where "V = st_val s"
  define T where "T = idw_term lat lon s"
  have lenT: "length T = length lat" using len by (simp add: T_def idw_term_length)
  have Tj: "T ! j = V / 0.000001"
    using j len at by (simp add: T_def idw_term_nth V_def)
  have ub: "x \<le> V / 0.000001" if "x \<in> set T" for x
  proof -
    from that obtain i where i: "i < length lat" and x: "x = T ! i"
      using lenT by (auto simp: in_set_conv_nth)
    have "V / max ((lat ! i - st_lat s)\<^sup>2 + (lon ! i - st_lon s)\<^sup>2) 0.000001 \<le> V / 0.000001"
      using pos by (intro frac_le) (simp_all add: V_def)
    then show ?thesis using i len x by (simp add: T_def idw_term_nth V_def)
  qed
  from j lenT have "T \<noteq> []" by auto
  then obtain M where M: "np_max T = Inr M" using np_max_nonempty by blast
  from np_max_char [OF M] have "M \<in> set T" and "\<forall>x \<in> set T. x \<le> M" by simp_all
  moreover from j lenT have "T ! j \<in> set T" by simp
  ultimately have Mv: "M = V / 0.000001" using ub Tj by (metis order_antisym)
  have Mpos: "0 < M" using pos by (simp add: Mv V_def)
  define field where "field = map (\<lambda>x. x / M * V) T"
  have res: "spatial_rainfall_field lat lon [s] = Inr (Some field)"
    using M Mpos
    by (simp add: spatial_rainfall_field_def Let_def idw_accumulate_single [OF len]
                  T_def [symmetric] py_max_def rescale_def field_def V_def)
  have fj: "field ! j = V"
    using j lenT Mpos by (simp add: field_def Tj Mv)
  have fb: "x \<le> V" if "x \<in> set field" for x
  proof -
    from that obtain y where y: "y \<in> set T" and x: "x = y / M * V"
      by (auto simp: field_def)
    from ub [OF y] Mv have "y \<le> M" by simp
    with Mpos have "y / M \<le> 1" by simp
    with pos have "y / M * V \<le> 1 * V" by (intro mult_right_mono) (simp_all add: V_def)
    with x show ?thesis by simp
  qed
  from res fj fb lenT show ?thesis by (auto simp: field_def V_def)
qed

lemma compute_fos_df:
  assumes "length sat = length (rows d)"
  shows "compute_fos_vectorized (map col_slope (rows d)) el (soil_params_of d) sat r dur
           = Inr (map (\<lambda>i. fos_cell (col_slope (rows d ! i)) (col_c (rows d ! i))
                               (col_phi (rows d ! i)) (col_gamma (rows d ! i))
                               (col_depth (rows d ! i)) (col_ksat (rows d ! i))
                               (sat ! i) r dur) [0..<length (rows d)])"
proof (cases "length (rows d) = 1")
  case True
  then show ?thesis
    using assms by (simp add: compute_fos_vectorized_def soil_params_of_def broadcast_len_def)
next
  case False
  then show ?thesis
    using assms by (simp add: compute_fos_vectorized_def soil_params_of_def broadcast_len_def)
qed

lemma cycle_physics_cell:
  assumes r: "cycle_physics d sat rg = Inr r"
      and ls: "length sat = length (rows d)" and lr: "length rg = length (rows d)"
      and i: "i < length (rows d)"
  shows "np_max rg = Inr (out_rain_max r)
       \<and> compute_fos_vectorized (map col_slope (rows d)) (map col_elevation (rows d))
            (soil_params_of d) (update_saturation sat rg) (out_rain_max r) 6 = Inr (out_fos r)
       \<and> out_fos r ! i
           = fos_cell (col_slope (rows d ! i)) (col_c (rows d ! i)) (col_phi (rows d ! i))
               (col_gamma (rows d ! i)) (col_depth (rows d ! i)) (col_ksat (rows d ! i))
               (clip (sat ! i * 0.985 + (rg ! i / 100) * 0.08) 0.05 1.0) (out_rain_max r) 6"
proof -
  from r obtain m where m: "np_max rg = Inr m"
    by (auto simp: cycle_physics_def split: sum.splits)
  have lu: "length (update_saturation sat rg) = length (rows d)"
    using ls lr by (simp add: update_saturation_def)
  note cf = compute_fos_df [OF lu, of "map col_elevation (rows d)" m 6]
  from r m cf have rm: "out_rain_max r = m"
    and fo: "out_fos r = map (\<lambda>i. fos_cell (col_slope (rows d ! i)) (col_c (rows d ! i))
                               (col_phi (rows d ! i)) (col_gamma (rows d ! i))
                               (col_depth (rows d ! i)) (col_ksat (rows d ! i))
                               (update_saturation sat rg ! i) m 6) [0..<length (rows d)]"
    by (auto simp: cycle_physics_def Let_def)
  have us: "update_saturation sat rg ! i = clip (sat ! i * 0.985 + (rg ! i / 100) * 0.08) 0.05 1.0"
    using ls lr i by (simp add: update_saturation_def decay_rate_def Let_def)
  have "out_fos r ! i
          = fos_cell (col_slope (rows d ! i)) (col_c (rows d ! i)) (col_phi (rows d ! i))
               (col_gamma (rows d ! i)) (col_depth (rows d ! i)) (col_ksat (rows d ! i))
               (update_saturation sat rg ! i) m 6"
    unfolding fo using i by simp
  with m rm cf fo us show ?thesis by simp
qed

lemma live_cycle_counter:
  "live_cycle E d st = (ls, Inr st') \<Longrightarrow> cycle st' = cycle st + 1"
  by (auto simp: live_cycle_def Let_def split: sum.splits option.splits)

lemma live_loop_stop:
  "stop_now mc (cycle st) \<Longrightarrow>
     live_loop E d mc st
       = Some (printed st @ [Fmt ''[STOP] Reached limit of {} cycles.'' []
                               [map_option real_of_int mc]], None)"
  by (subst live_loop.simps) simp

lemma live_loop_raise:
  "\<not> stop_now mc (cycle st) \<Longrightarrow> live_cycle E d st = (ls, Inl e) \<Longrightarrow>
     live_loop E d mc st = Some (printed st @ ls, Some e)"
  by (subst live_loop.simps) simp

lemma live_loop_step:
  "\<not> stop_now mc (cycle st) \<Longrightarrow> live_cycle E d st = (ls, Inr st') \<Longrightarrow>
     live_loop E d mc st = live_loop E d mc (st'\<lparr>printed := printed st @ ls\<rparr>)"
  by (subst live_loop.simps) simp

lemma live_loop_terminates: "\<exists>x. live_loop E d (Some m) st = Some x"
proof (induction "nat (m - int (cycle st))" arbitrary: st)
  case 0
  then have "stop_now (Some m) (cycle st)" by (simp add: stop_now_def)
  then show ?case by (simp add: live_loop_stop)
next
  case (Suc k)
  show ?case
  proof (cases "stop_now (Some m) (cycle st)")
    case True
    then show ?thesis by (simp add: live_loop_stop)
  next
    case False
    obtain ls res where c: "live_cycle E d st = (ls, res)" by (cases "live_cycle E d st")
    show ?thesis
    proof (cases res)
      case (Inl e)
      with False c show ?thesis by (simp add: live_loop_raise)
    next
      case (Inr st')
      with c have "cycle st' = cycle st + 1" by (simp add: live_cycle_counter)
      with Suc.hyps(2) have "k = nat (m - int (cycle (st'\<lparr>printed := printed st @ ls\<rparr>)))"
        by simp
      then have "\<exists>x. live_loop E d (Some m) (st'\<lparr>printed := printed st @ ls\<rparr>) = Some x"
        by (rule Suc.hyps(1))
      with False c Inr show ?thesis by (simp add: live_loop_step)
    qed
  qed
qed

lemma live_body_terminates: "\<exists>x. live_body E p (Some m) out0 = Some x"
proof (cases "load_shimla_data E p")
  case (Inl e)
  then show ?thesis by (simp add: live_body_def)
next
  case d0: (Inr d0)
  show ?thesis
  proof (cases "estimate_soil_parameters E d0")
    case (Inl e)
    with d0 show ?thesis by (simp add: live_body_def)
  next
    case (Inr d)
    with d0 have "live_body E p (Some m) out0
        = live_loop E d (Some m)
            \<lparr>cycle = 0, saturation = Some (replicate (length (rows d)) 0.2), printed = out0\<rparr>"
      by (simp add: live_body_def)
    then show ?thesis using live_loop_terminates by simp
  qed
qed

lemma live_finish_web:
  "\<exists>r. live_finish True x = Inr (Some r) \<and> (status r = ''Error'' \<or> status r = ''Success'')"
proof (cases x)
  case (Pair out eo)
  then show ?thesis by (cases eo) (simp_all add: live_finish_def)
qed

lemma live_missing_web:
  "live_missing True
     = Inr (Some \<lparr>status = ''Error'', logs = live_header True @ [Line ''Dataset missing.''],
                  payload = None\<rparr>)"
  by (simp add: live_missing_def captured_def)

lemma backtest_returns:
  "\<exists>r. backtest_event E csv = Inr r \<and> (status r = ''Error'' \<or> status r = ''Success'')"
  by (auto simp: backtest_event_def split: option.splits prod.splits sum.splits)

lemma backtest_missing:
  "resolve_dataset E csv = None \<longrightarrow>
     backtest_event E csv
       = Inr \<lparr>status = ''Error'', logs = backtest_header @ [Line ''Dataset not found!''],
              payload = None\<rparr>"
  by (simp add: backtest_event_def)

lemma backtest_raises:
  "resolve_dataset E csv = Some pb \<and> backtest_body E pb = (lb, Inl eb) \<longrightarrow>
     backtest_event E csv
       = Inr \<lparr>status = ''Error'', logs = backtest_header @ lb @ [Exc ''Execution Error: {}'' eb],
              payload = None\<rparr>"
  by (simp add: backtest_event_def)

lemma backtest_completes:
  "resolve_dataset E csv = Some pb \<and> backtest_body E pb = (lb, Inr results) \<longrightarrow>
     backtest_event E csv
       = Inr \<lparr>status = ''Success'', logs = backtest_header @ lb,
              payload = Some (Results results)\<rparr>"
  by (simp add: backtest_event_def)

lemma demo_returns:
  "\<exists>r. run_demo_event E csv True = Inr (Some r)
        \<and> (status r = ''Error'' \<or> status r = ''Success'')"
  by (auto simp: run_demo_event_def demo_missing_def split: option.splits prod.splits sum.splits)

lemma demo_missing_dataset:
  "dataset_missing E csv \<longrightarrow>
     run_demo_event E csv True
       = Inr (Some \<lparr>status = ''Error'',
                    logs = demo_header @ [Fmt ''Error: Dataset not found at {}''
                                            [case csv of None \<Rightarrow> ''None'' | Some p \<Rightarrow> p] []],
                    payload = None\<rparr>)"
  by (auto simp: run_demo_event_def demo_missing_def dataset_missing_def captured_def
           split: option.splits)

lemma demo_raises:
  "csv = Some pd \<and> \<not> dataset_missing E csv \<and> demo_body E pd True = (ld, Inl ed) \<longrightarrow>
     run_demo_event E csv True
       = Inr (Some \<lparr>status = ''Error'',
                    logs = demo_header @ ld @ [Exc ''Execution Error: {}'' ed],
                    payload = None\<rparr>)"
  by (auto simp: run_demo_event_def dataset_missing_def captured_def)

lemma demo_completes:
  "csv = Some pd \<and> \<not> dataset_missing E csv \<and> demo_body E pd True = (ld, Inr img) \<longrightarrow>
     run_demo_event E csv True
       = Inr (Some \<lparr>status = ''Success'', logs = demo_header @ ld,
                    payload = Some (Image img)\<rparr>)"
  by (auto simp: run_demo_event_def dataset_missing_def captured_def)

lemma live_never_raises:
  "run_live_simulation E csv mc True = Some x \<longrightarrow>
     (\<exists>r. x = Inr (Some r) \<and> (status r = ''Error'' \<or> status r = ''Success''))"
proof
  assume a: "run_live_simulation E csv mc True = Some x"
  show "\<exists>r. x = Inr (Some r) \<and> (status r = ''Error'' \<or> status r = ''Success'')"
  proof (cases "dataset_missing E csv")
    case True
    with a have "x = live_missing True"
      by (auto simp: run_live_simulation_def dataset_missing_def split: option.splits)
    then show ?thesis by (simp add: live_missing_web)
  next
    case False
    with a obtain y where "x = live_finish True y"
      by (auto simp: run_live_simulation_def dataset_missing_def split: option.splits)
    then show ?thesis using live_finish_web [of y] by simp
  qed
qed

lemma live_bounded_returns:
  "\<exists>r. run_live_simulation E csv (Some m) True = Some (Inr (Some r))
        \<and> (status r = ''Error'' \<or> status r = ''Success'')"
proof -
  have "\<exists>x. run_live_simulation E csv (Some m) True = Some x"
  proof (cases "dataset_missing E csv")
    case True
    then show ?thesis
      by (auto simp: run_live_simulation_def dataset_missing_def split: option.splits)
  next
    case False
    then obtain p where p: "csv = Some p" "p \<noteq> []" "path_exists E p"
      by (auto simp: dataset_missing_def split: option.splits)
    obtain y where "live_body E p (Some m) (live_header True) = Some y"
      using live_body_terminates by blast
    with p show ?thesis by (simp add: run_live_simulation_def)
  qed
  then obtain x where x: "run_live_simulation E csv (Some m) True = Some x" by blast
  with live_never_raises [of E csv "Some m" x] show ?thesis by auto
qed

lemma live_missing_dataset:
  "dataset_missing E csv \<longrightarrow>
     run_live_simulation E csv mc True
       = Some (Inr (Some \<lparr>status = ''Error'',
                          logs = live_header True @ [Line ''Dataset missing.''],
                          payload = None\<rparr>))"
  by (auto simp: run_live_simulation_def dataset_missing_def live_missing_web
           split: option.splits)

lemma live_raises:
  "csv = Some pl \<and> \<not> dataset_missing E csv
     \<and> live_body E pl mc (live_header True) = Some (out, Some el) \<longrightarrow>
     run_live_simulation E csv mc True
       = Some (Inr (Some \<lparr>status = ''Error'',
                          logs = out @ [Exc ''Error during simulation: {}'' el],
                          payload = None\<rparr>))"
  by (auto simp: run_live_simulation_def dataset_missing_def live_finish_def captured_def)

lemma live_completes:
  "csv = Some pl \<and> \<not> dataset_missing E csv
     \<and> live_body E pl mc (live_header True) = Some (out, None) \<longrightarrow>
     run_live_simulation E csv mc True
       = Some (Inr (Some \<lparr>status = ''Success'', logs = out, payload = None\<rparr>))"
  by (auto simp: run_live_simulation_def dataset_missing_def live_finish_def captured_def)

section \<open>The claims\<close>

text \<open>
  C1. Whenever \<open>compute_fos_vectorized\<close> returns an array, every factor of safety in it
  lies between 0 and 10, and every risk value that the logistic transform of the live
  simulation computes from it lies between 0 and 1.
\<close>

theorem fos_and_risk_in_range:
  assumes "compute_fos_vectorized slope_deg elevation soil_params sat rain dur = Inr fos"
  shows "(\<forall>x \<in> set fos. 0 \<le> x \<and> x \<le> 10) \<and> (\<forall>y \<in> set (live_risk fos). 0 \<le> y \<and> y \<le> 1)"
proof
  from compute_fos_vectorized_nth [OF assms]
  obtain c ph g z k where nth: "\<forall>i < length fos. fos ! i =
      fos_cell (nd_get (Array slope_deg) i) (nd_get c i) (nd_get ph i) (nd_get g i)
               (nd_get z i) (nd_get k i) (nd_get (Array sat) i) rain dur"
    by blast
  show "\<forall>x \<in> set fos. 0 \<le> x \<and> x \<le> 10"
  proof
    fix x assume "x \<in> set fos"
    then obtain i where "i < length fos" and "x = fos ! i"
      by (auto simp: in_set_conv_nth)
    with nth show "0 \<le> x \<and> x \<le> 10"
      by (simp add: fos_cell_range)
  qed
  show "\<forall>y \<in> set (live_risk fos). 0 \<le> y \<and> y \<le> 1"
    using logistic_range by (auto simp: live_risk_def)
qed

theorem fos_and_risk_in_range_witness:
  "compute_fos_vectorized [45] [1500] (one_cell_soil 30 30 20 1 0.000001) [0.2] 0 6
     = Inr [fos_cell 45 30 30 20 1 0.000001 0.2 0 6]
   \<and> 0 \<le> fos_cell 45 30 30 20 1 0.000001 0.2 0 6
   \<and> fos_cell 45 30 30 20 1 0.000001 0.2 0 6 \<le> 10
   \<and> 0 \<le> 1 / (1 + exp (10 * (fos_cell 45 30 30 20 1 0.000001 0.2 0 6 - 1)))
   \<and> 1 / (1 + exp (10 * (fos_cell 45 30 30 20 1 0.000001 0.2 0 6 - 1))) \<le> 1"
proof -
  have h: "compute_fos_vectorized [45] [1500] (one_cell_soil 30 30 20 1 0.000001) [0.2] 0 6
             = Inr [fos_cell 45 30 30 20 1 0.000001 0.2 0 6]"
    by (rule compute_one_cell)
  from fos_and_risk_in_range [OF h] h show ?thesis
    by (simp add: live_risk_def)
qed

text \<open>
  C2. For a previous saturation vector and a rainfall field of the same length, the
  update of one cycle gives, in every cell, the previous value times 0.985 plus
  rainfall / 100 times 0.08, clamped to the interval from 0.05 to 1.0; so every cell is
  in that interval afterwards, however large the rainfall.
\<close>

theorem saturation_update_clamped:
  assumes "length prev = length rain" and "i < length prev"
  shows "length (update_saturation prev rain) = length prev
       \<and> update_saturation prev rain ! i
           = clip (prev ! i * 0.985 + (rain ! i / 100) * 0.08) 0.05 1.0
       \<and> 0.05 \<le> update_saturation prev rain ! i
       \<and> update_saturation prev rain ! i \<le> 1.0"
proof -
  have v: "update_saturation prev rain ! i
             = clip (prev ! i * 0.985 + (rain ! i / 100) * 0.08) 0.05 1.0"
    using assms by (simp add: update_saturation_def decay_rate_def Let_def)
  have r: "0.05 \<le> clip (prev ! i * 0.985 + (rain ! i / 100) * 0.08) 0.05 1.0
         \<and> clip (prev ! i * 0.985 + (rain ! i / 100) * 0.08) 0.05 1.0 \<le> 1.0"
    by (rule clip_range) simp
  have l: "length (update_saturation prev rain) = length prev"
    using assms(1) by (simp add: update_saturation_def)
  show ?thesis using v r l by simp
qed

theorem saturation_update_clamped_witness:
  "update_saturation [0.2] [100000] ! 0 = 1 \<and> update_saturation [0.2] [0] ! 0 = 0.197"
  using saturation_update_clamped [of "[0.2]" "[100000]" 0]
        saturation_update_clamped [of "[0.2]" "[0]" 0]
  by (simp add: clip_def)






text \<open>
  C8, as the specification states it, fails for the backtest: at a factor of safety of
  1 the curve \<open>1 / (1 + exp(5 * (fos - 1)))\<close> gives one half, and the backtest computes
  \<open>1 / (1 + exp(5 * (1 - 1.1)))\<close>.
\<close>

theorem backtest_risk_counterexample:
  "backtest_risk [1] \<noteq> map (spec_logistic 5) [1]"
proof -
  have "exp (- (1 / 2) :: real) \<noteq> 1" by simp
  then have "1 / (1 + exp (- (1 / 2) :: real)) \<noteq> 1 / 2" by (simp add: field_simps)
  then show ?thesis by (simp add: backtest_risk_def spec_logistic_def)
qed

text \<open>
  C8, amended. The risk transform is the logistic curve
  \<open>1 / (1 + exp(k * (fos - f0)))\<close>, with steepness 10 and midpoint 1.0 in live monitoring
  (the curve of the specification with k = 10) and with steepness 5 and midpoint 1.1 in
  historical backtesting.
\<close>

theorem risk_transforms:
  "live_risk fos = map (logistic 10 1) fos
   \<and> live_risk fos = map (spec_logistic 10) fos
   \<and> backtest_risk fos = map (logistic 5 1.1) fos"
  by (simp add: live_risk_def backtest_risk_def logistic_def spec_logistic_def)

text \<open>
  C4. The anomaly filter keeps, in their order, exactly the readings whose value does
  not exceed \<open>max(median * 4, 200)\<close>; of the readings 20, 22, 18 and 9999 it drops 9999
  and keeps the other three, and of three readings of 30 it keeps all three.
\<close>

theorem anomaly_filter_policy:
  "filter_anomalies rs
     = filter (\<lambda>r. st_val r \<le> max (median (map st_val rs) * 4) 200) rs
   \<and> filter_anomalies [probe ''S1'' 20, probe ''S2'' 22, probe ''S3'' 18, probe ''S4'' 9999]
       = [probe ''S1'' 20, probe ''S2'' 22, probe ''S3'' 18]
   \<and> filter_anomalies [probe ''S1'' 30, probe ''S2'' 30, probe ''S3'' 30]
       = [probe ''S1'' 30, probe ''S2'' 30, probe ''S3'' 30]"
proof (intro conjI)
  show "filter_anomalies rs
          = filter (\<lambda>r. st_val r \<le> max (median (map st_val rs) * 4) 200) rs"
    by (simp add: filter_anomalies_def Let_def DEVIATION_K_def CEILING_def not_less)
  have m4: "median [20, 22, 18, 9999] = 21"
    by (simp add: median_def Let_def)
  show "filter_anomalies [probe ''S1'' 20, probe ''S2'' 22, probe ''S3'' 18, probe ''S4'' 9999]
          = [probe ''S1'' 20, probe ''S2'' 22, probe ''S3'' 18]"
    by (simp add: filter_anomalies_def Let_def DEVIATION_K_def CEILING_def probe_def m4)
  have m3: "median [30, 30, 30] = 30"
    by (simp add: median_def Let_def)
  show "filter_anomalies [probe ''S1'' 30, probe ''S2'' 30, probe ''S3'' 30]
          = [probe ''S1'' 30, probe ''S2'' 30, probe ''S3'' 30]"
    by (simp add: filter_anomalies_def Let_def DEVIATION_K_def CEILING_def probe_def m3)
qed

text \<open>
  C5, at the input where the code departs from it. For a grid of one cell and a single
  station at the cell's coordinates: a reading of 0 gives no number for the cell (the
  field maximum is 0 and the rescaling divides by it), whereas no reading gives the
  zero field and a reading of 25 gives 25.
\<close>

theorem single_station_zero_reading:
  "spatial_rainfall_field [31.10] [77.10] [probe ''S1'' 0] = Inr None
   \<and> spatial_rainfall_field [31.10] [77.10] [] = Inr (Some [0])
   \<and> spatial_rainfall_field [31.10] [77.10] [probe ''S1'' 25] = Inr (Some [25])"
  by (simp add: spatial_rainfall_field_def idw_accumulate_def idw_term_def Let_def
                np_max_def py_max_def rescale_def probe_def)

text \<open>
  C6, at the inputs where the code departs from it. For a grid with at least one cell
  and a non-empty set of readings that are all 0, the accumulated field has maximum 0
  and the rescaling divides by it: the interpolator's output holds no number.
\<close>

theorem zero_readings_field_undefined:
  assumes "clean \<noteq> []" and "\<forall>s \<in> set clean. st_val s = 0"
      and "lat \<noteq> []" and "length lon = length lat"
  shows "np_max (idw_accumulate lat lon clean) = Inr 0
       \<and> spatial_rainfall_field lat lon clean = Inr None"
  using assms by (rule zero_field_undefined)

theorem zero_readings_field_undefined_witness:
  "np_max (idw_accumulate [31.10, 31.20] [77.10, 77.20]
             [reading_at 0 0, reading_at 1 0, reading_at 2 0]) = Inr 0
   \<and> spatial_rainfall_field [31.10, 31.20] [77.10, 77.20]
        [reading_at 0 0, reading_at 1 0, reading_at 2 0] = Inr None"
proof -
  have a: "[reading_at 0 0, reading_at 1 0, reading_at 2 0] \<noteq> []" by simp
  have b: "\<forall>s \<in> set [reading_at 0 0, reading_at 1 0, reading_at 2 0]. st_val s = 0"
    by (simp add: reading_at_def Let_def)
  have c: "[31.10, 31.20::real] \<noteq> []" by simp
  have d: "length [77.10, 77.20::real] = length [31.10, 31.20::real]" by simp
  from zero_readings_field_undefined [OF a b c d] show ?thesis .
qed

text \<open>
  C10. In a cycle of the live simulation the stability model receives one rainfall
  intensity for all cells, the maximum of the rainfall field (an entry of the field
  that no entry exceeds), and the saturation that the tracker has just updated. So the
  factor of safety of cell \<open>i\<close> is the per-cell model at the cell's attributes, at the
  clamped update of the cell's saturation by the cell's own rainfall, and at the field
  maximum; two rainfall fields with the same maximum and the same value in cell \<open>i\<close>
  give cell \<open>i\<close> the same factor of safety.
\<close>

theorem stability_rainfall_is_field_maximum:
  assumes r: "cycle_physics d sat rg = Inr r"
      and ls: "length sat = length (rows d)" and lr: "length rg = length (rows d)"
      and i: "i < length (rows d)"
  shows "np_max rg = Inr (out_rain_max r)
       \<and> out_rain_max r \<in> set rg
       \<and> (\<forall>x \<in> set rg. x \<le> out_rain_max r)
       \<and> compute_fos_vectorized (map col_slope (rows d)) (map col_elevation (rows d))
            (soil_params_of d) (update_saturation sat rg) (out_rain_max r) 6 = Inr (out_fos r)
       \<and> out_fos r ! i
           = fos_cell (col_slope (rows d ! i)) (col_c (rows d ! i)) (col_phi (rows d ! i))
               (col_gamma (rows d ! i)) (col_depth (rows d ! i)) (col_ksat (rows d ! i))
               (clip (sat ! i * 0.985 + (rg ! i / 100) * 0.08) 0.05 1.0) (out_rain_max r) 6
       \<and> (\<forall>rg' r'. cycle_physics d sat rg' = Inr r' \<and> length rg' = length (rows d)
                    \<and> np_max rg' = np_max rg \<and> rg' ! i = rg ! i
                  \<longrightarrow> out_fos r' ! i = out_fos r ! i)"
proof -
  note c = cycle_physics_cell [OF r ls lr i]
  from c have mx: "np_max rg = Inr (out_rain_max r)" by simp
  note ch = np_max_char [OF mx]
  have "out_fos r' ! i = out_fos r ! i"
    if a: "cycle_physics d sat rg' = Inr r'" and b: "length rg' = length (rows d)"
      and m: "np_max rg' = np_max rg" and v: "rg' ! i = rg ! i" for rg' r'
  proof -
    note c' = cycle_physics_cell [OF a ls b i]
    from c c' m have "out_rain_max r' = out_rain_max r" by simp
    with c c' v show ?thesis by simp
  qed
  with c ch show ?thesis by blast
qed

theorem stability_rainfall_is_field_maximum_witness:
  "\<exists>r r'. cycle_physics df3 [0.2, 0.2, 0.2] [10, 40, 5] = Inr r
       \<and> cycle_physics df3 [0.2, 0.2, 0.2] [10, 40, 30] = Inr r'
       \<and> out_rain_max r = 40
       \<and> out_fos r ! 0
           = fos_cell (col_slope cell0) (col_c cell0) (col_phi cell0) (col_gamma cell0)
               (col_depth cell0) (col_ksat cell0)
               (clip (0.2 * 0.985 + (10 / 100) * 0.08) 0.05 1.0) 40 6
       \<and> out_fos r' ! 0 = out_fos r ! 0"
proof -
  have l: "length (update_saturation [0.2, 0.2, 0.2] [10, 40, 5]) = length (rows df3)"
    by (simp add: update_saturation_def df3_def)
  have l': "length (update_saturation [0.2, 0.2, 0.2] [10, 40, 30]) = length (rows df3)"
    by (simp add: update_saturation_def df3_def)
  note cf = compute_fos_df [OF l, of "map col_elevation (rows df3)" 40 6]
  note cf' = compute_fos_df [OF l', of "map col_elevation (rows df3)" 40 6]
  have m: "np_max [10, 40, 5] = Inr 40" by (simp add: np_max_def)
  have m': "np_max [10, 40, 30] = Inr 40" by (simp add: np_max_def)
  have "\<exists>r. cycle_physics df3 [0.2, 0.2, 0.2] [10, 40, 5] = Inr r"
    unfolding cycle_physics_def m Let_def sum.case cf by simp
  then obtain r where r: "cycle_physics df3 [0.2, 0.2, 0.2] [10, 40, 5] = Inr r" by blast
  have "\<exists>r. cycle_physics df3 [0.2, 0.2, 0.2] [10, 40, 30] = Inr r"
    unfolding cycle_physics_def m' Let_def sum.case cf' by simp
  then obtain r' where r': "cycle_physics df3 [0.2, 0.2, 0.2] [10, 40, 30] = Inr r'" by blast
  have ls: "length [0.2, 0.2, 0.2 :: real] = length (rows df3)" by (simp add: df3_def)
  have lr: "length [10, 40, 5 :: real] = length (rows df3)" by (simp add: df3_def)
  have lr': "length [10, 40, 30 :: real] = length (rows df3)" by (simp add: df3_def)
  have i: "0 < length (rows df3)" by (simp add: df3_def)
  have mm: "np_max [10, 40, 30] = np_max [10, 40, 5]" by (simp add: m m')
  have v: "[10, 40, 30 :: real] ! 0 = [10, 40, 5] ! 0" by simp
  note t = stability_rainfall_is_field_maximum [OF r ls lr i]
  from t m have a: "out_rain_max r = 40" by simp
  from t a have b: "out_fos r ! 0
           = fos_cell (col_slope cell0) (col_c cell0) (col_phi cell0) (col_gamma cell0)
               (col_depth cell0) (col_ksat cell0)
               (clip (0.2 * 0.985 + (10 / 100) * 0.08) 0.05 1.0) 40 6"
    by (simp add: df3_def)
  from t have "\<forall>rg' r'. cycle_physics df3 [0.2, 0.2, 0.2] rg' = Inr r'
                    \<and> length rg' = length (rows df3)
                    \<and> np_max rg' = np_max [10, 40, 5] \<and> rg' ! 0 = [10, 40, 5] ! 0
                  \<longrightarrow> out_fos r' ! 0 = out_fos r ! 0"
    by blast
  with r' lr' mm v have c: "out_fos r' ! 0 = out_fos r ! 0" by blast
  from r r' a b c show ?thesis by blast
qed

text \<open>
  C9. Called by the web layer, none of the three entry points lets an exception
  reach its caller: each returns a dict whose status is Error or Success.
  \<open>backtest_event\<close> and \<open>run_demo_event\<close> always return; \<open>run_live_simulation\<close> returns
  whenever a cycle limit is given, and raises in no case. Each answers a missing
  dataset with status Error, an exception raised inside its \<open>try\<close> block with status
  Error and the text printed up to the exception, and a completed run with status
  Success and the text printed. Exceptions are the subclasses of Python's \<open>Exception\<close>.
\<close>

theorem entry_points_return_status:
  "(\<exists>r. backtest_event E csv = Inr r \<and> (status r = ''Error'' \<or> status r = ''Success''))
   \<and> (resolve_dataset E csv = None \<longrightarrow>
        backtest_event E csv
          = Inr \<lparr>status = ''Error'', logs = backtest_header @ [Line ''Dataset not found!''],
                 payload = None\<rparr>)
   \<and> (resolve_dataset E csv = Some pb \<and> backtest_body E pb = (lb, Inl eb) \<longrightarrow>
        backtest_event E csv
          = Inr \<lparr>status = ''Error'', logs = backtest_header @ lb @ [Exc ''Execution Error: {}'' eb],
                 payload = None\<rparr>)
   \<and> (resolve_dataset E csv = Some pb \<and> backtest_body E pb = (lb, Inr results) \<longrightarrow>
        backtest_event E csv
          = Inr \<lparr>status = ''Success'', logs = backtest_header @ lb,
                 payload = Some (Results results)\<rparr>)
   \<and> (\<exists>r. run_demo_event E csv True = Inr (Some r)
           \<and> (status r = ''Error'' \<or> status r = ''Success''))
   \<and> (dataset_missing E csv \<longrightarrow>
        run_demo_event E csv True
          = Inr (Some \<lparr>status = ''Error'',
                       logs = demo_header @ [Fmt ''Error: Dataset not found at {}''
                                               [case csv of None \<Rightarrow> ''None'' | Some p \<Rightarrow> p] []],
                       payload = None\<rparr>))
   \<and> (csv = Some pd \<and> \<not> dataset_missing E csv \<and> demo_body E pd True = (ld, Inl ed) \<longrightarrow>
        run_demo_event E csv True
          = Inr (Some \<lparr>status = ''Error'',
                       logs = demo_header @ ld @ [Exc ''Execution Error: {}'' ed],
                       payload = None\<rparr>))
   \<and> (csv = Some pd \<and> \<not> dataset_missing E csv \<and> demo_body E pd True = (ld, Inr img) \<longrightarrow>
        run_demo_event E csv True
          = Inr (Some \<lparr>status = ''Success'', logs = demo_header @ ld,
                       payload = Some (Image img)\<rparr>))
   \<and> (run_live_simulation E csv mc True = Some x \<longrightarrow>
        (\<exists>r. x = Inr (Some r) \<and> (status r = ''Error'' \<or> status r = ''Success'')))
   \<and> (\<exists>r. run_live_simulation E csv (Some m) True = Some (Inr (Some r))
           \<and> (status r = ''Error'' \<or> status r = ''Success''))
   \<and> (dataset_missing E csv \<longrightarrow>
        run_live_simulation E csv mc True
          = Some (Inr (Some \<lparr>status = ''Error'',
                             logs = live_header True @ [Line ''Dataset missing.''],
                             payload = None\<rparr>)))
   \<and> (csv = Some pl \<and> \<not> dataset_missing E csv
        \<and> live_body E pl mc (live_header True) = Some (out, Some el) \<longrightarrow>
        run_live_simulation E csv mc True
          = Some (Inr (Some \<lparr>status = ''Error'',
                             logs = out @ [Exc ''Error during simulation: {}'' el],
                             payload = None\<rparr>)))
   \<and> (csv = Some pl \<and> \<not> dataset_missing E csv
        \<and> live_body E pl mc (live_header True) = Some (out, None) \<longrightarrow>
        run_live_simulation E csv mc True
          = Some (Inr (Some \<lparr>status = ''Success'', logs = out, payload = None\<rparr>)))"
  by (intro conjI backtest_returns backtest_missing backtest_raises backtest_completes
            demo_returns demo_missing_dataset demo_raises demo_completes
            live_never_raises live_bounded_returns live_missing_dataset live_raises
            live_completes)

theorem entry_points_return_status_witness:
  "backtest_event env_bad_csv (Some ''grid.csv'')
     = Inr \<lparr>status = ''Error'',
            logs = backtest_header @ [] @ [Exc ''Execution Error: {}'' (External ''no such file'')],
            payload = None\<rparr>
   \<and> run_demo_event env_no_files None True
       = Inr (Some \<lparr>status = ''Error'',
                    logs = demo_header @ [Fmt ''Error: Dataset not found at {}'' [''None''] []],
                    payload = None\<rparr>)
   \<and> run_live_simulation env_ok (Some ''grid.csv'') (Some 0) True
       = Some (Inr (Some \<lparr>status = ''Success'',
                          logs = live_header True
                                   @ [Fmt ''[STOP] Reached limit of {} cycles.'' [] [Some 0]],
                          payload = None\<rparr>))"
proof -
  have b1: "resolve_dataset env_bad_csv (Some ''grid.csv'') = Some ''grid.csv''"
    by (simp add: resolve_dataset_def dataset_missing_def env_bad_csv_def env_no_files_def)
  have b2: "backtest_body env_bad_csv ''grid.csv'' = ([], Inl (External ''no such file''))"
    by (simp add: backtest_body_def env_bad_csv_def env_no_files_def)
  have d1: "dataset_missing env_no_files None"
    by (simp add: dataset_missing_def)
  have l0: "Some ''grid.csv'' = Some ''grid.csv''" by simp
  have l1: "\<not> dataset_missing env_ok (Some ''grid.csv'')"
    by (simp add: dataset_missing_def env_ok_def env_bad_csv_def env_no_files_def)
  have l2: "live_body env_ok ''grid.csv'' (Some 0) (live_header True)
              = Some (live_header True @ [Fmt ''[STOP] Reached limit of {} cycles.'' [] [Some 0]],
                      None)"
    by (simp add: live_body_def env_ok_def env_bad_csv_def env_no_files_def
                  live_loop_stop stop_now_def)
  note t1 = entry_points_return_status
              [where E = env_bad_csv and csv = "Some ''grid.csv''" and pb = "''grid.csv''"
                 and lb = "[]" and eb = "External ''no such file''",
               THEN conjunct2, THEN conjunct2, THEN conjunct1, THEN mp, OF conjI [OF b1 b2]]
  note t2 = entry_points_return_status
              [where E = env_no_files and csv = None,
               THEN conjunct2, THEN conjunct2, THEN conjunct2, THEN conjunct2, THEN conjunct2,
               THEN conjunct1, THEN mp, OF d1]
  note t3 = entry_points_return_status
              [where E = env_ok and csv = "Some ''grid.csv''" and mc = "Some 0"
                 and pl = "''grid.csv''"
                 and out = "live_header True @ [Fmt ''[STOP] Reached limit of {} cycles.'' [] [Some 0]]",
               THEN conjunct2, THEN conjunct2, THEN conjunct2, THEN conjunct2, THEN conjunct2,
               THEN conjunct2, THEN conjunct2, THEN conjunct2, THEN conjunct2, THEN conjunct2,
               THEN conjunct2, THEN conjunct2, THEN mp, OF conjI [OF l0 conjI [OF l1 l2]]]
  from t1 t2 t3 show ?thesis by simp
qed

end
